theory Spec2Isabelle
  imports Main "HOL-Library.Word"
begin

unbundle bit_operations_syntax

section \<open>Data model of \<^verbatim>\<open>src/target/adiv6.c\<close>\<close>

type_synonym u8 = "8 word"
type_synonym u16 = "16 word"
type_synonym u32 = "32 word"
type_synonym u64 = "64 word"

text \<open>
  The macros of \<^verbatim>\<open>adiv5.h\<close> and \<^verbatim>\<open>adiv6_internal.h\<close> are used by the code but their
  definitions are not among the sources. They are a parameter \<open>k\<close> of every function below,
  and every theorem holds for all their values. Register addresses have the type of the
  \<^verbatim>\<open>uint16_t addr\<close> argument they are passed as, values that of the \<^verbatim>\<open>uint32_t\<close> argument.
\<close>

record adiv_consts =
  ADIV5_DP_SELECT :: u16
  ADIV6_DP_SELECT1 :: u16
  ADIV6_DP_DPIDR1 :: u16
  ADIV6_DP_BASEPTR0 :: u16
  ADIV6_DP_BASEPTR1 :: u16
  ADIV5_APnDP :: u16
  CIDR0_OFFSET :: u16
  ADIV6_AP_BANK_MASK :: u16
  ADIV5_DP_BANK1 :: u32
  ADIV5_DP_BANK2 :: u32
  ADIV5_DP_BANK3 :: u32
  ADIV5_DP_BANK5 :: u32
  ADIV6_DP_DPIDR1_ASIZE_MASK :: u32
  ADIV6_DP_BASEPTR0_VALID :: u32
  ADIV6_DP_BASE_ADDRESS_MASK :: u64
  CID_CLASS_MASK :: u32
  CID_PREAMBLE :: u32
  CID_CLASS_SHIFT :: nat

text \<open>
  The two handler slots of the DP handle hold function pointers; a pointer is modelled by
  the identity of the function it points to.
\<close>

datatype fn_ptr = Fn_adiv6_ap_reg_read | Fn_adiv6_ap_reg_write | Fn_other nat

text \<open>
  Modelled from the spec: the declaration of \<^verbatim>\<open>adiv5_debug_port_s\<close> is in a header that is
  not among the sources. The spec names the fields this file touches: \<^verbatim>\<open>address_width\<close>
  (u8/u32) and the handler slots \<^verbatim>\<open>ap_read\<close> and \<^verbatim>\<open>ap_write\<close>. The width is taken as an
  8-bit field, which agrees with the \<^verbatim>\<open>%u\<close> it is printed with at line 73 (the 32-bit
  values of the file are printed with \<^verbatim>\<open>PRIx32\<close>). The record is extensible, so every other
  field of the C struct lives in the extension \<open>more\<close>, which the frame property
  quantifies over.
\<close>

record adiv5_debug_port_s =
  ap_read :: fn_ptr
  ap_write :: fn_ptr
  address_width :: u8

text \<open>
  Modelled from the spec: \<^verbatim>\<open>adiv6_access_port_s\<close> is declared in \<^verbatim>\<open>adiv6_internal.h\<close>,
  which is not among the sources. An AP handle has a 64-bit \<^verbatim>\<open>ap_address\<close> and a reference
  \<^verbatim>\<open>base.dp\<close> to its DP; that is the one DP of the state below, so only the address is kept.
\<close>

record adiv6_access_port_s =
  ap_address :: u64

text \<open>One register access on the debug link, in the order they are issued.\<close>

datatype access = Write u16 u32 | Read u16 u32

text \<open>
  The transport behind \<^verbatim>\<open>adiv5_dp_read\<close> is not part of this file. It is a parameter: the
  value a read of a register returns, given every access made so far. Any deterministic
  target is such a function.
\<close>

type_synonym device = "access list \<Rightarrow> u16 \<Rightarrow> u32"

text \<open>The diagnostics of \<^verbatim>\<open>DEBUG_INFO\<close> and \<^verbatim>\<open>DEBUG_WARN\<close>, with the values they print.\<close>

datatype diag =
    Info_dpidr1 u32 u8
  | Info_no_valid_base
  | Info_bad_base u32 u32
  | Warn_preamble u32 u32 u32 u32 u32

record 'a world =
  dp :: "'a adiv5_debug_port_s_scheme"
  bus :: "access list"
  diag_log :: "diag list"

text \<open>Undefined behaviour of C is a result of its own.\<close>

datatype fault = Shift_count_out_of_range

section \<open>Primitives\<close>

text \<open>
  Modelled from the spec: \<^verbatim>\<open>adiv5_dp_read\<close>, \<^verbatim>\<open>adiv5_dp_write\<close> and the \<^verbatim>\<open>DEBUG_INFO\<close> and
  \<^verbatim>\<open>DEBUG_WARN\<close> macros come from headers that are not among the sources. The spec gives
  the first two as \<^verbatim>\<open>dp_read(dp_handle, register_address: u16) -> u32\<close> and
  \<^verbatim>\<open>dp_write(dp_handle, register_address: u16, value: u32)\<close>, blocking calls into the
  transport. Here each call appends its access to the bus trace and changes nothing else;
  a read returns what the device answers. A transport failure does not return into this
  file, so the runs modelled are those in which every transport call returns.
\<close>

definition adiv5_dp_write :: "u16 \<Rightarrow> u32 \<Rightarrow> 'a world \<Rightarrow> 'a world" where
  "adiv5_dp_write addr v s = s\<lparr>bus := bus s @ [Write addr v]\<rparr>"

definition adiv5_dp_read :: "device \<Rightarrow> u16 \<Rightarrow> 'a world \<Rightarrow> u32 \<times> 'a world" where
  "adiv5_dp_read dev addr s =
     (let v = dev (bus s) addr in (v, s\<lparr>bus := bus s @ [Read addr v]\<rparr>))"

definition debug :: "diag \<Rightarrow> 'a world \<Rightarrow> 'a world" where
  "debug m s = s\<lparr>diag_log := diag_log s @ [m]\<rparr>"

text \<open>
  \<^verbatim>\<open>baseptr0 | ((uint64_t)baseptr1 << 32U)\<close> (line 59), and the two casts
  \<^verbatim>\<open>(uint32_t)ap->ap_address\<close> and \<^verbatim>\<open>(uint32_t)(ap->ap_address >> 32U)\<close>
  (lines 98, 100, 139, 142, 151, 154).
\<close>

definition combine :: "u32 \<Rightarrow> u32 \<Rightarrow> u64" where
  "combine low high = ucast low OR push_bit 32 (ucast high)"

definition split_wide_address :: "u64 \<Rightarrow> u32 \<times> u32" where
  "split_wide_address a = (ucast a, ucast (drop_bit 32 a))"

text \<open>
  \<^verbatim>\<open>(UINT64_C(1) << n) - 1U\<close> (line 81). The shift count is the promoted
  \<^verbatim>\<open>address_width\<close>; a count of 64 or more is undefined in C.
\<close>

definition width_mask :: "u8 \<Rightarrow> fault + u64" where
  "width_mask w =
     (if unat w < 64 then Inr (push_bit (unat w) 1 - 1) else Inl Shift_count_out_of_range)"

section \<open>The functions of the file\<close>

definition adiv6_dp_read_base_address :: "adiv_consts \<Rightarrow> device \<Rightarrow> 'a world \<Rightarrow> u64 \<times> 'a world" where
  "adiv6_dp_read_base_address k dev s0 =
     (let s1 = adiv5_dp_write (ADIV5_DP_SELECT k) (ADIV5_DP_BANK2 k) s0;
          (baseptr0, s2) = adiv5_dp_read dev (ADIV6_DP_BASEPTR0 k) s1;
          s3 = adiv5_dp_write (ADIV5_DP_SELECT k) (ADIV5_DP_BANK3 k) s2;
          (baseptr1, s4) = adiv5_dp_read dev (ADIV6_DP_BASEPTR1 k) s3
      in (combine baseptr0 baseptr1, s4))"

text \<open>The loop of \<^verbatim>\<open>adiv6_dp_read_id\<close> (lines 104 to 107), from counter \<open>i\<close>.\<close>

function read_id_loop :: "adiv_consts \<Rightarrow> device \<Rightarrow> nat \<Rightarrow> u32 \<Rightarrow> 'a world \<Rightarrow> u32 \<times> 'a world" where
  "read_id_loop k dev i result s =
     (if i < 4 then
        (let (v, s') = adiv5_dp_read dev (ADIV5_APnDP k OR push_bit 2 (of_nat i)) s
         in read_id_loop k dev (i + 1) (result OR push_bit (i * 8) (v AND 0xff)) s')
      else (result, s))"
  by pat_completeness auto
termination
  by (relation "measure (\<lambda>(k, dev, i, result, s). 4 - i)") auto

declare read_id_loop.simps [simp del]

definition adiv6_dp_read_id ::
  "adiv_consts \<Rightarrow> device \<Rightarrow> adiv6_access_port_s \<Rightarrow> u16 \<Rightarrow> 'a world \<Rightarrow> u32 \<times> 'a world" where
  "adiv6_dp_read_id k dev ap addr s0 =
     (let s1 = adiv5_dp_write (ADIV5_DP_SELECT k) (ADIV5_DP_BANK5 k) s0;
          s2 = adiv5_dp_write (ADIV6_DP_SELECT1 k) (snd (split_wide_address (ap_address ap))) s1;
          s3 = adiv5_dp_write (ADIV5_DP_SELECT k)
                 (fst (split_wide_address (ap_address ap)) OR ucast (addr AND 0x0ff0)) s2
      in read_id_loop k dev 0 0 s3)"

definition adiv6_component_probe ::
  "adiv_consts \<Rightarrow> device \<Rightarrow> u64 \<Rightarrow> u32 \<Rightarrow> 'a world \<Rightarrow> bool \<times> 'a world" where
  "adiv6_component_probe k dev base_address entry_number s0 =
     (let base_ap = \<lparr>ap_address = base_address\<rparr>;
          (cidr, s1) = adiv6_dp_read_id k dev base_ap (CIDR0_OFFSET k) s0
      in if cidr AND NOT (CID_CLASS_MASK k) \<noteq> CID_PREAMBLE k then
           (False, debug (Warn_preamble entry_number
              (snd (split_wide_address base_address)) (fst (split_wide_address base_address))
              cidr (CID_PREAMBLE k)) s1)
         else
           (let cid_class = drop_bit (CID_CLASS_SHIFT k) (cidr AND CID_CLASS_MASK k)
            in (False, s1)))"

definition adiv6_ap_reg_read ::
  "adiv_consts \<Rightarrow> device \<Rightarrow> adiv6_access_port_s \<Rightarrow> u16 \<Rightarrow> 'a world \<Rightarrow> u32 \<times> 'a world" where
  "adiv6_ap_reg_read k dev ap addr s0 =
     (let s1 = adiv5_dp_write (ADIV5_DP_SELECT k) (ADIV5_DP_BANK5 k) s0;
          s2 = adiv5_dp_write (ADIV6_DP_SELECT1 k) (snd (split_wide_address (ap_address ap))) s1;
          bank = addr AND ADIV6_AP_BANK_MASK k;
          s3 = adiv5_dp_write (ADIV5_DP_SELECT k)
                 (fst (split_wide_address (ap_address ap))
                    OR drop_bit 4 (ucast bank AND 0xf000) OR (ucast bank AND 0xf0)) s2
      in adiv5_dp_read dev addr s3)"

definition adiv6_ap_reg_write ::
  "adiv_consts \<Rightarrow> adiv6_access_port_s \<Rightarrow> u16 \<Rightarrow> u32 \<Rightarrow> 'a world \<Rightarrow> 'a world" where
  "adiv6_ap_reg_write k ap addr v s0 =
     (let s1 = adiv5_dp_write (ADIV5_DP_SELECT k) (ADIV5_DP_BANK5 k) s0;
          s2 = adiv5_dp_write (ADIV6_DP_SELECT1 k) (snd (split_wide_address (ap_address ap))) s1;
          bank = addr AND ADIV6_AP_BANK_MASK k;
          s3 = adiv5_dp_write (ADIV5_DP_SELECT k)
                 (fst (split_wide_address (ap_address ap))
                    OR drop_bit 4 (ucast bank AND 0xf000) OR (ucast bank AND 0xf0)) s2
      in adiv5_dp_write addr v s3)"

definition adiv6_dp_init :: "adiv_consts \<Rightarrow> device \<Rightarrow> 'a world \<Rightarrow> (fault + bool) \<times> 'a world" where
  "adiv6_dp_init k dev s0 =
     (let s1 = s0\<lparr>dp := (dp s0)\<lparr>ap_read := Fn_adiv6_ap_reg_read\<rparr>\<rparr>;
          s2 = s1\<lparr>dp := (dp s1)\<lparr>ap_write := Fn_adiv6_ap_reg_write\<rparr>\<rparr>;
          s3 = adiv5_dp_write (ADIV5_DP_SELECT k) (ADIV5_DP_BANK1 k) s2;
          (dpidr1, s4) = adiv5_dp_read dev (ADIV6_DP_DPIDR1 k) s3;
          s5 = s4\<lparr>dp := (dp s4)\<lparr>address_width := ucast (dpidr1 AND ADIV6_DP_DPIDR1_ASIZE_MASK k)\<rparr>\<rparr>;
          s6 = debug (Info_dpidr1 dpidr1 (address_width (dp s5))) s5;
          (base_address, s7) = adiv6_dp_read_base_address k dev s6
      in if base_address AND ucast (ADIV6_DP_BASEPTR0_VALID k) = 0 then
           (Inr False, debug Info_no_valid_base s7)
         else
           (case width_mask (address_width (dp s7)) of
              Inl f \<Rightarrow> (Inl f, s7)
            | Inr m \<Rightarrow>
                if base_address AND m \<noteq> base_address then
                  (Inr False, debug (Info_bad_base (snd (split_wide_address base_address))
                     (fst (split_wide_address base_address))) s7)
                else
                  (let (r, s8) = adiv6_component_probe k dev
                       (base_address AND ADIV6_DP_BASE_ADDRESS_MASK k) 0 s7
                   in (Inr r, s8))))"

section \<open>Describing runs\<close>

text \<open>
  \<open>answers dev t as\<close>: continuing after the accesses \<open>t\<close>, the device returns to every read
  of \<open>as\<close> the value recorded there.
\<close>

fun answers :: "device \<Rightarrow> access list \<Rightarrow> access list \<Rightarrow> bool" where
  "answers dev t [] = True"
| "answers dev t (Write a v # as) = answers dev (t @ [Write a v]) as"
| "answers dev t (Read a v # as) = (dev t a = v \<and> answers dev (t @ [Read a v]) as)"

text \<open>
  The six accesses of discovery (lines 68 to 76), when the reads of DPIDR1, BASEPTR0 and
  BASEPTR1 return \<open>dpidr1\<close>, \<open>baseptr0\<close> and \<open>baseptr1\<close>, and the state they leave.
\<close>

definition discovery :: "adiv_consts \<Rightarrow> u32 \<Rightarrow> u32 \<Rightarrow> u32 \<Rightarrow> access list" where
  "discovery k dpidr1 baseptr0 baseptr1 =
     [Write (ADIV5_DP_SELECT k) (ADIV5_DP_BANK1 k), Read (ADIV6_DP_DPIDR1 k) dpidr1,
      Write (ADIV5_DP_SELECT k) (ADIV5_DP_BANK2 k), Read (ADIV6_DP_BASEPTR0 k) baseptr0,
      Write (ADIV5_DP_SELECT k) (ADIV5_DP_BANK3 k), Read (ADIV6_DP_BASEPTR1 k) baseptr1]"

definition discovered :: "adiv_consts \<Rightarrow> u32 \<Rightarrow> u32 \<Rightarrow> u32 \<Rightarrow> 'a world \<Rightarrow> 'a world" where
  "discovered k dpidr1 baseptr0 baseptr1 s =
     s\<lparr>dp := (dp s)\<lparr>ap_read := Fn_adiv6_ap_reg_read, ap_write := Fn_adiv6_ap_reg_write,
                    address_width := ucast (dpidr1 AND ADIV6_DP_DPIDR1_ASIZE_MASK k)\<rparr>,
       bus := bus s @ discovery k dpidr1 baseptr0 baseptr1,
       diag_log := diag_log s @
         [Info_dpidr1 dpidr1 (ucast (dpidr1 AND ADIV6_DP_DPIDR1_ASIZE_MASK k))]\<rparr>"

text \<open>
  For concrete runs: an instance of the constants (bit 0 of BASEPTR0 as validity flag and a
  4 KiB aligned base address as in the spec, the other values with the register numbering
  of the ADIv6 architecture), a device that returns the values of a script one read after
  the other (and 0 when the script is used up), and a fresh DP handle.
\<close>

definition example_consts :: adiv_consts where
  "example_consts =
     \<lparr>ADIV5_DP_SELECT = 0x8, ADIV6_DP_SELECT1 = 0x4, ADIV6_DP_DPIDR1 = 0x0,
      ADIV6_DP_BASEPTR0 = 0x0, ADIV6_DP_BASEPTR1 = 0x0, ADIV5_APnDP = 0x100,
      CIDR0_OFFSET = 0xff0, ADIV6_AP_BANK_MASK = 0xf0f0,
      ADIV5_DP_BANK1 = 1, ADIV5_DP_BANK2 = 2, ADIV5_DP_BANK3 = 3, ADIV5_DP_BANK5 = 5,
      ADIV6_DP_DPIDR1_ASIZE_MASK = 0x7f, ADIV6_DP_BASEPTR0_VALID = 1,
      ADIV6_DP_BASE_ADDRESS_MASK = 0xfffffffffffff000,
      CID_CLASS_MASK = 0x0000f000, CID_PREAMBLE = 0xb105000d, CID_CLASS_SHIFT = 12\<rparr>"

fun is_read :: "access \<Rightarrow> bool" where
  "is_read (Read a v) = True"
| "is_read (Write a v) = False"

definition scripted :: "u32 list \<Rightarrow> device" where
  "scripted vs t a =
     (let n = length (filter is_read t) in if n < length vs then vs ! n else 0)"

definition fresh :: "unit world" where
  "fresh = \<lparr>dp = \<lparr>ap_read = Fn_other 0, ap_write = Fn_other 1, address_width = 0\<rparr>,
            bus = [], diag_log = []\<rparr>"

section \<open>Splitting and combining addresses\<close>

lemma split_combine: "split_wide_address (combine low high) = (low, high)"
  unfolding split_wide_address_def combine_def
  by (simp add: bit_eq_iff bit_simps) (auto simp: bit_simps dest: bit_imp_le_length)

text \<open>
  C2. Every 64-bit address survives the round trip: truncating it to its low 32 bits and
  shifting it right by 32 for the high half, then recombining the halves as
  \<^verbatim>\<open>low | ((uint64_t)high << 32)\<close>, gives the address back.
\<close>

theorem combine_split_wide_address:
  "combine (fst (split_wide_address a)) (snd (split_wide_address a)) = a"
  unfolding split_wide_address_def combine_def
  by (rule bit_word_eqI) (auto simp: bit_simps)

lemma ucast_u32_u64_eq_0: "(ucast (x::u32) :: u64) = 0 \<longleftrightarrow> x = 0"
proof
  assume h: "(ucast x :: u64) = 0"
  have "bit x n = bit (ucast x :: u64) n" for n
    by (auto simp: bit_simps dest: bit_imp_le_length)
  with h show "x = 0" by (simp add: bit_eq_iff)
qed simp

text \<open>Masking the combined address with a 32-bit flag only looks at the low half.\<close>

lemma combine_valid_bit: "combine b0 b1 AND ucast v = 0 \<longleftrightarrow> b0 AND v = 0"
proof -
  have "combine b0 b1 AND ucast v = (ucast (b0 AND v) :: u64)"
    by (rule bit_word_eqI) (auto simp: combine_def bit_simps dest: bit_imp_le_length)
  then show ?thesis
    by (simp only: ucast_u32_u64_eq_0)
qed

lemma width_mask_defined: "unat w < 64 \<Longrightarrow> width_mask w = Inr (mask (unat w))"
  by (simp add: width_mask_def mask_eq_exp_minus_1 push_bit_of_1)

lemma width_mask_undefined: "\<not> unat w < 64 \<Longrightarrow> width_mask w = Inl Shift_count_out_of_range"
  by (simp add: width_mask_def)

text \<open>A value differs from its low \<open>n\<close> bits exactly when a bit at position \<open>n\<close> or above is set.\<close>

lemma take_bit_neq_iff: "take_bit n (c::u64) \<noteq> c \<longleftrightarrow> (\<exists>m\<ge>n. bit c m)"
proof
  assume "take_bit n c \<noteq> c"
  then obtain m where "bit (take_bit n c) m \<noteq> bit c m"
    by (auto simp: bit_eq_iff)
  then have "n \<le> m \<and> bit c m"
    by (auto simp: bit_simps)
  then show "\<exists>m\<ge>n. bit c m" by blast
next
  assume "\<exists>m\<ge>n. bit c m"
  then obtain m where m: "n \<le> m" "bit c m" by blast
  then have "\<not> bit (take_bit n c) m" by (simp add: bit_simps)
  with m show "take_bit n c \<noteq> c" by auto
qed

section \<open>The primitives only extend the bus trace\<close>

lemma dp_adiv5_dp_write [simp]: "dp (adiv5_dp_write a v s) = dp s"
  and diag_log_adiv5_dp_write [simp]: "diag_log (adiv5_dp_write a v s) = diag_log s"
  and bus_adiv5_dp_write [simp]: "bus (adiv5_dp_write a v s) = bus s @ [Write a v]"
  by (simp_all add: adiv5_dp_write_def)

lemma fst_adiv5_dp_read [simp]: "fst (adiv5_dp_read dev a s) = dev (bus s) a"
  and dp_adiv5_dp_read [simp]: "dp (snd (adiv5_dp_read dev a s)) = dp s"
  and diag_log_adiv5_dp_read [simp]: "diag_log (snd (adiv5_dp_read dev a s)) = diag_log s"
  and bus_adiv5_dp_read [simp]:
    "bus (snd (adiv5_dp_read dev a s)) = bus s @ [Read a (dev (bus s) a)]"
  by (simp_all add: adiv5_dp_read_def Let_def)

section \<open>Reading the base address\<close>

text \<open>
  \<^verbatim>\<open>adiv6_dp_read_base_address\<close> selects bank 2, reads BASEPTR0, selects bank 3, reads
  BASEPTR1 and returns the two values combined.
\<close>

lemma adiv6_dp_read_base_address_run:
  assumes "answers dev (bus s)
     [Write (ADIV5_DP_SELECT k) (ADIV5_DP_BANK2 k), Read (ADIV6_DP_BASEPTR0 k) baseptr0,
      Write (ADIV5_DP_SELECT k) (ADIV5_DP_BANK3 k), Read (ADIV6_DP_BASEPTR1 k) baseptr1]"
  shows "adiv6_dp_read_base_address k dev s =
     (combine baseptr0 baseptr1, s\<lparr>bus := bus s @
        [Write (ADIV5_DP_SELECT k) (ADIV5_DP_BANK2 k), Read (ADIV6_DP_BASEPTR0 k) baseptr0,
         Write (ADIV5_DP_SELECT k) (ADIV5_DP_BANK3 k), Read (ADIV6_DP_BASEPTR1 k) baseptr1]\<rparr>)"
  using assms
  by (simp add: adiv6_dp_read_base_address_def adiv5_dp_read_def adiv5_dp_write_def Let_def)

text \<open>
  A target whose BASEPTR0 and BASEPTR1 hold the two halves of an address \<open>a\<close> hands \<open>a\<close>
  back through \<^verbatim>\<open>adiv6_dp_read_base_address\<close>.
\<close>

lemma adiv6_dp_read_base_address_halves:
  assumes "answers dev (bus s)
     [Write (ADIV5_DP_SELECT k) (ADIV5_DP_BANK2 k),
      Read (ADIV6_DP_BASEPTR0 k) (fst (split_wide_address a)),
      Write (ADIV5_DP_SELECT k) (ADIV5_DP_BANK3 k),
      Read (ADIV6_DP_BASEPTR1 k) (snd (split_wide_address a))]"
  shows "fst (adiv6_dp_read_base_address k dev s) = a"
proof -
  have "combine (ucast a) (ucast (drop_bit 32 a)) = a"
    unfolding combine_def by (rule bit_word_eqI) (auto simp: bit_simps)
  with adiv6_dp_read_base_address_run [OF assms] show ?thesis
    by (simp add: split_wide_address_def)
qed

section \<open>The access port proxy\<close>

text \<open>
  C1. Every call of \<^verbatim>\<open>adiv6_ap_reg_read\<close> and of \<^verbatim>\<open>adiv6_ap_reg_write\<close> adds exactly four
  accesses to the bus: the bank select for SELECT1, the write of the high address half to
  SELECT1, the write of the low half and bank bits to SELECT, and the access to the target
  offset. The SELECT1 write is immediately followed by the SELECT write, so it comes
  strictly first and nothing lies between the two.
\<close>

theorem adiv6_ap_reg_access_order:
  "bus (snd (adiv6_ap_reg_read k dev ap addr s)) = bus s @
     [Write (ADIV5_DP_SELECT k) (ADIV5_DP_BANK5 k),
      Write (ADIV6_DP_SELECT1 k) (snd (split_wide_address (ap_address ap))),
      Write (ADIV5_DP_SELECT k) (fst (split_wide_address (ap_address ap))
        OR drop_bit 4 (ucast (addr AND ADIV6_AP_BANK_MASK k) AND 0xf000)
        OR (ucast (addr AND ADIV6_AP_BANK_MASK k) AND 0xf0)),
      Read addr (fst (adiv6_ap_reg_read k dev ap addr s))]
   \<and> bus (adiv6_ap_reg_write k ap addr v s) = bus s @
     [Write (ADIV5_DP_SELECT k) (ADIV5_DP_BANK5 k),
      Write (ADIV6_DP_SELECT1 k) (snd (split_wide_address (ap_address ap))),
      Write (ADIV5_DP_SELECT k) (fst (split_wide_address (ap_address ap))
        OR drop_bit 4 (ucast (addr AND ADIV6_AP_BANK_MASK k) AND 0xf000)
        OR (ucast (addr AND ADIV6_AP_BANK_MASK k) AND 0xf0)),
      Write addr v]"
  by (simp add: adiv6_ap_reg_read_def adiv6_ap_reg_write_def Let_def)

text \<open>
  The bank bits that reach SELECT, bit by bit: bits 4 to 7 of the masked offset stay where
  they are, bits 12 to 15 come down to bits 8 to 11, and nothing else is contributed.
\<close>

lemma bank_bits:
  "bit (drop_bit 4 (ucast (addr AND m :: u16) AND 0xf000) OR (ucast (addr AND m) AND 0xf0) :: u32) n
     \<longleftrightarrow> (4 \<le> n \<and> n < 8 \<and> bit addr n \<and> bit m n)
       \<or> (8 \<le> n \<and> n < 12 \<and> bit addr (n + 4) \<and> bit m (n + 4))"
proof -
  have a: "(0xf000 :: u32) = push_bit 12 (mask 4)" by (simp add: mask_eq_exp_minus_1)
  have b: "(0xf0 :: u32) = push_bit 4 (mask 4)" by (simp add: mask_eq_exp_minus_1)
  show ?thesis
    unfolding a b
    by (auto simp: bit_simps ac_simps)
qed

text \<open>
  C5. In both handlers the third access of a call is the write to SELECT, and its value is
  the low 32 bits of the AP address OR-ed with \<^verbatim>\<open>((bank & 0xf000) >> 4) | (bank & 0xf0)\<close>,
  where \<^verbatim>\<open>bank\<close> is the 16-bit offset masked by the AP bank mask.
\<close>

theorem adiv6_ap_reg_select_value:
  "bus (snd (adiv6_ap_reg_read k dev ap addr s)) ! (length (bus s) + 2) =
     Write (ADIV5_DP_SELECT k)
       (ucast (ap_address ap)
          OR drop_bit 4 (ucast (addr AND ADIV6_AP_BANK_MASK k) AND 0xf000)
          OR (ucast (addr AND ADIV6_AP_BANK_MASK k) AND 0xf0))
   \<and> bus (adiv6_ap_reg_write k ap addr v s) ! (length (bus s) + 2) =
     Write (ADIV5_DP_SELECT k)
       (ucast (ap_address ap)
          OR drop_bit 4 (ucast (addr AND ADIV6_AP_BANK_MASK k) AND 0xf000)
          OR (ucast (addr AND ADIV6_AP_BANK_MASK k) AND 0xf0))"
  by (simp add: adiv6_ap_reg_read_def adiv6_ap_reg_write_def Let_def split_wide_address_def
      nth_append)

section \<open>Reading the component identification\<close>

lemma read_id_loop_unrolled:
  "\<exists>v0 v1 v2 v3.
     answers dev (bus s)
       [Read (ADIV5_APnDP k) v0, Read (ADIV5_APnDP k OR 4) v1,
        Read (ADIV5_APnDP k OR 8) v2, Read (ADIV5_APnDP k OR 12) v3] \<and>
     read_id_loop k dev 0 0 s =
       ((v0 AND 0xff) OR push_bit 8 (v1 AND 0xff) OR push_bit 16 (v2 AND 0xff)
          OR push_bit 24 (v3 AND 0xff),
        s\<lparr>bus := bus s @
          [Read (ADIV5_APnDP k) v0, Read (ADIV5_APnDP k OR 4) v1,
           Read (ADIV5_APnDP k OR 8) v2, Read (ADIV5_APnDP k OR 12) v3]\<rparr>)"
proof -
  define v0 where "v0 = dev (bus s) (ADIV5_APnDP k)"
  define t1 where "t1 = bus s @ [Read (ADIV5_APnDP k) v0]"
  define v1 where "v1 = dev t1 (ADIV5_APnDP k OR 4)"
  define t2 where "t2 = t1 @ [Read (ADIV5_APnDP k OR 4) v1]"
  define v2 where "v2 = dev t2 (ADIV5_APnDP k OR 8)"
  define t3 where "t3 = t2 @ [Read (ADIV5_APnDP k OR 8) v2]"
  define v3 where "v3 = dev t3 (ADIV5_APnDP k OR 12)"
  have a: "answers dev (bus s)
       [Read (ADIV5_APnDP k) v0, Read (ADIV5_APnDP k OR 4) v1,
        Read (ADIV5_APnDP k OR 8) v2, Read (ADIV5_APnDP k OR 12) v3]"
    by (simp add: v0_def v1_def v2_def v3_def t1_def t2_def t3_def)
  have "read_id_loop k dev 0 0 s =
       ((v0 AND 0xff) OR push_bit 8 (v1 AND 0xff) OR push_bit 16 (v2 AND 0xff)
          OR push_bit 24 (v3 AND 0xff),
        s\<lparr>bus := bus s @
          [Read (ADIV5_APnDP k) v0, Read (ADIV5_APnDP k OR 4) v1,
           Read (ADIV5_APnDP k OR 8) v2, Read (ADIV5_APnDP k OR 12) v3]\<rparr>)"
    apply (subst read_id_loop.simps, simp add: adiv5_dp_read_def Let_def)
    apply (subst read_id_loop.simps, simp add: adiv5_dp_read_def Let_def)
    apply (subst read_id_loop.simps, simp add: adiv5_dp_read_def Let_def)
    apply (subst read_id_loop.simps, simp add: adiv5_dp_read_def Let_def)
    apply (subst read_id_loop.simps, simp add: adiv5_dp_read_def Let_def)
    apply (simp add: v0_def v1_def v2_def v3_def t1_def t2_def t3_def or.assoc)
    done
  with a show ?thesis by blast
qed

text \<open>
  C7. \<^verbatim>\<open>adiv6_dp_read_id\<close> sets up SELECT1 and SELECT and then performs four reads, at
  \<^verbatim>\<open>ADIV5_APnDP | (i << 2)\<close> for \<open>i\<close> from 0 to 3. With \<open>v0\<close> to \<open>v3\<close> the values the device
  returned to them, the result is \<^verbatim>\<open>byte0 | byte1 << 8 | byte2 << 16 | byte3 << 24\<close>, where
  byte \<open>i\<close> is the low byte of \<open>vi\<close>: the upper 24 bits of every read are masked away.
\<close>

theorem adiv6_dp_read_id_bytes:
  "\<exists>v0 v1 v2 v3.
     answers dev (bus s)
       [Write (ADIV5_DP_SELECT k) (ADIV5_DP_BANK5 k),
        Write (ADIV6_DP_SELECT1 k) (snd (split_wide_address (ap_address ap))),
        Write (ADIV5_DP_SELECT k)
          (fst (split_wide_address (ap_address ap)) OR ucast (addr AND 0x0ff0)),
        Read (ADIV5_APnDP k) v0, Read (ADIV5_APnDP k OR 4) v1,
        Read (ADIV5_APnDP k OR 8) v2, Read (ADIV5_APnDP k OR 12) v3] \<and>
     adiv6_dp_read_id k dev ap addr s =
       ((v0 AND 0xff) OR push_bit 8 (v1 AND 0xff) OR push_bit 16 (v2 AND 0xff)
          OR push_bit 24 (v3 AND 0xff),
        s\<lparr>bus := bus s @
          [Write (ADIV5_DP_SELECT k) (ADIV5_DP_BANK5 k),
           Write (ADIV6_DP_SELECT1 k) (snd (split_wide_address (ap_address ap))),
           Write (ADIV5_DP_SELECT k)
             (fst (split_wide_address (ap_address ap)) OR ucast (addr AND 0x0ff0)),
           Read (ADIV5_APnDP k) v0, Read (ADIV5_APnDP k OR 4) v1,
           Read (ADIV5_APnDP k OR 8) v2, Read (ADIV5_APnDP k OR 12) v3]\<rparr>)"
proof -
  define s3 where "s3 = s\<lparr>bus := bus s @
     [Write (ADIV5_DP_SELECT k) (ADIV5_DP_BANK5 k),
      Write (ADIV6_DP_SELECT1 k) (snd (split_wide_address (ap_address ap))),
      Write (ADIV5_DP_SELECT k)
        (fst (split_wide_address (ap_address ap)) OR ucast (addr AND 0x0ff0))]\<rparr>"
  have run: "adiv6_dp_read_id k dev ap addr s = read_id_loop k dev 0 0 s3"
    by (simp add: adiv6_dp_read_id_def adiv5_dp_write_def Let_def s3_def)
  from read_id_loop_unrolled [of dev s3 k] obtain v0 v1 v2 v3 where
    "answers dev (bus s3)
       [Read (ADIV5_APnDP k) v0, Read (ADIV5_APnDP k OR 4) v1,
        Read (ADIV5_APnDP k OR 8) v2, Read (ADIV5_APnDP k OR 12) v3]"
    and "read_id_loop k dev 0 0 s3 =
       ((v0 AND 0xff) OR push_bit 8 (v1 AND 0xff) OR push_bit 16 (v2 AND 0xff)
          OR push_bit 24 (v3 AND 0xff),
        s3\<lparr>bus := bus s3 @
          [Read (ADIV5_APnDP k) v0, Read (ADIV5_APnDP k OR 4) v1,
           Read (ADIV5_APnDP k OR 8) v2, Read (ADIV5_APnDP k OR 12) v3]\<rparr>)"
    by blast
  then show ?thesis
    unfolding run by (simp add: s3_def)
qed

text \<open>A run in which the four reads return more than a byte each.\<close>

theorem adiv6_dp_read_id_bytes_witness:
  "fst (adiv6_dp_read_id example_consts (scripted [0xffffff0d, 0x1200, 0x05, 0xa1b1])
      \<lparr>ap_address = 0x1000\<rparr> 0xff0 fresh) = 0xb105000d"
proof -
  from adiv6_dp_read_id_bytes [of "scripted [0xffffff0d, 0x1200, 0x05, 0xa1b1]" fresh
      example_consts "\<lparr>ap_address = 0x1000\<rparr>" "0xff0"]
  obtain v0 v1 v2 v3 where
    a: "answers (scripted [0xffffff0d, 0x1200, 0x05, 0xa1b1]) (bus fresh)
       [Write (ADIV5_DP_SELECT example_consts) (ADIV5_DP_BANK5 example_consts),
        Write (ADIV6_DP_SELECT1 example_consts) (snd (split_wide_address (ap_address \<lparr>ap_address = 0x1000\<rparr>))),
        Write (ADIV5_DP_SELECT example_consts)
          (fst (split_wide_address (ap_address \<lparr>ap_address = 0x1000\<rparr>)) OR ucast (0xff0 AND 0x0ff0 :: u16)),
        Read (ADIV5_APnDP example_consts) v0, Read (ADIV5_APnDP example_consts OR 4) v1,
        Read (ADIV5_APnDP example_consts OR 8) v2, Read (ADIV5_APnDP example_consts OR 12) v3]"
    and r: "fst (adiv6_dp_read_id example_consts (scripted [0xffffff0d, 0x1200, 0x05, 0xa1b1])
         \<lparr>ap_address = 0x1000\<rparr> 0xff0 fresh) =
       (v0 AND 0xff) OR push_bit 8 (v1 AND 0xff) OR push_bit 16 (v2 AND 0xff)
          OR push_bit 24 (v3 AND 0xff)"
    by auto
  from a have "v0 = 0xffffff0d" and "v1 = 0x1200" and "v2 = 0x05" and "v3 = 0xa1b1"
    by (simp_all add: scripted_def fresh_def)
  with r show ?thesis by simp
qed

lemma adiv6_dp_read_id_frame [simp]:
  "dp (snd (adiv6_dp_read_id k dev ap addr s)) = dp s"
  "diag_log (snd (adiv6_dp_read_id k dev ap addr s)) = diag_log s"
  using read_id_loop_unrolled [of dev
      "adiv5_dp_write (ADIV5_DP_SELECT k)
         (fst (split_wide_address (ap_address ap)) OR ucast (addr AND 0x0ff0))
         (adiv5_dp_write (ADIV6_DP_SELECT1 k) (snd (split_wide_address (ap_address ap)))
            (adiv5_dp_write (ADIV5_DP_SELECT k) (ADIV5_DP_BANK5 k) s))" k]
  by (auto simp: adiv6_dp_read_id_def Let_def)

section \<open>Component probe\<close>

text \<open>
  C8. \<^verbatim>\<open>adiv6_component_probe\<close> returns false for every DP state, base address and entry
  number: after the preamble check the class nibble is extracted and dropped, and the
  function ends in \<^verbatim>\<open>return false\<close>.
\<close>

theorem adiv6_component_probe_stub:
  "fst (adiv6_component_probe k dev base_address entry_number s) = False"
  by (simp add: adiv6_component_probe_def Let_def split_def)

text \<open>
  C6. When the CIDR value read for the entry differs from the preamble constant outside
  the class mask, the probe returns false and reports the entry number, both address
  halves, the value read and the expected preamble. The condition does not look at the
  bits under the class mask.
\<close>

theorem adiv6_component_probe_preamble:
  assumes "adiv6_dp_read_id k dev \<lparr>ap_address = base_address\<rparr> (CIDR0_OFFSET k) s = (cidr, s1)"
    and "cidr AND NOT (CID_CLASS_MASK k) \<noteq> CID_PREAMBLE k"
  shows "adiv6_component_probe k dev base_address entry_number s =
     (False, debug (Warn_preamble entry_number
        (snd (split_wide_address base_address)) (fst (split_wide_address base_address))
        cidr (CID_PREAMBLE k)) s1)"
  using assms by (simp add: adiv6_component_probe_def Let_def)

text \<open>
  A run with the class nibble 1 and a wrong top byte (\<open>0xa1\<close> where the preamble has
  \<open>0xb1\<close>).
\<close>

theorem adiv6_component_probe_preamble_witness:
  "adiv6_dp_read_id example_consts (scripted [0x0d, 0x10, 0x05, 0xa1]) \<lparr>ap_address = 0x1000\<rparr>
       (CIDR0_OFFSET example_consts) fresh =
     (0xa105100d,
      \<lparr>dp = \<lparr>ap_read = Fn_other 0, ap_write = Fn_other 1, address_width = 0\<rparr>,
       bus = [Write 8 5, Write 4 0, Write 8 0x1ff0, Read 0x100 0x0d, Read 0x104 0x10,
              Read 0x108 0x05, Read 0x10c 0xa1],
       diag_log = []\<rparr>)
   \<and> 0xa105100d AND NOT (CID_CLASS_MASK example_consts) \<noteq> CID_PREAMBLE example_consts
   \<and> adiv6_component_probe example_consts (scripted [0x0d, 0x10, 0x05, 0xa1]) 0x1000 7 fresh =
     (False,
      \<lparr>dp = \<lparr>ap_read = Fn_other 0, ap_write = Fn_other 1, address_width = 0\<rparr>,
       bus = [Write 8 5, Write 4 0, Write 8 0x1ff0, Read 0x100 0x0d, Read 0x104 0x10,
              Read 0x108 0x05, Read 0x10c 0xa1],
       diag_log = [Warn_preamble 7 0 0x1000 0xa105100d 0xb105000d]\<rparr>)"
proof -
  have r: "adiv6_dp_read_id example_consts (scripted [0x0d, 0x10, 0x05, 0xa1])
       \<lparr>ap_address = 0x1000\<rparr> (CIDR0_OFFSET example_consts) fresh =
     (0xa105100d,
      \<lparr>dp = \<lparr>ap_read = Fn_other 0, ap_write = Fn_other 1, address_width = 0\<rparr>,
       bus = [Write 8 5, Write 4 0, Write 8 0x1ff0, Read 0x100 0x0d, Read 0x104 0x10,
              Read 0x108 0x05, Read 0x10c 0xa1],
       diag_log = []\<rparr>)"
    by (simp add: adiv6_dp_read_id_def read_id_loop.simps adiv5_dp_read_def
        adiv5_dp_write_def split_wide_address_def scripted_def example_consts_def fresh_def
        Let_def)
  have p: "0xa105100d AND NOT (CID_CLASS_MASK example_consts) \<noteq> CID_PREAMBLE example_consts"
    by (simp add: example_consts_def)
  from adiv6_component_probe_preamble [OF r p, of 7] r p show ?thesis
    by (simp add: debug_def split_wide_address_def example_consts_def)
qed

lemma adiv6_component_probe_frame [simp]:
  "dp (snd (adiv6_component_probe k dev base_address entry_number s)) = dp s"
  by (simp add: adiv6_component_probe_def Let_def split_def debug_def)

section \<open>Initialisation\<close>

text \<open>
  The run of \<^verbatim>\<open>adiv6_dp_init\<close> when the device answers the three discovery reads with
  \<open>dpidr1\<close>, \<open>baseptr0\<close> and \<open>baseptr1\<close>, return path by return path.
\<close>

lemma adiv6_dp_init_run:
  assumes "answers dev (bus s) (discovery k dpidr1 baseptr0 baseptr1)"
  shows "adiv6_dp_init k dev s =
     (if baseptr0 AND ADIV6_DP_BASEPTR0_VALID k = 0 then
        (Inr False, debug Info_no_valid_base (discovered k dpidr1 baseptr0 baseptr1 s))
      else
        (case width_mask (ucast (dpidr1 AND ADIV6_DP_DPIDR1_ASIZE_MASK k)) of
           Inl f \<Rightarrow> (Inl f, discovered k dpidr1 baseptr0 baseptr1 s)
         | Inr m \<Rightarrow>
             if combine baseptr0 baseptr1 AND m \<noteq> combine baseptr0 baseptr1 then
               (Inr False, debug (Info_bad_base baseptr1 baseptr0)
                  (discovered k dpidr1 baseptr0 baseptr1 s))
             else
               (Inr (fst (adiv6_component_probe k dev
                    (combine baseptr0 baseptr1 AND ADIV6_DP_BASE_ADDRESS_MASK k) 0
                    (discovered k dpidr1 baseptr0 baseptr1 s))),
                snd (adiv6_component_probe k dev
                    (combine baseptr0 baseptr1 AND ADIV6_DP_BASE_ADDRESS_MASK k) 0
                    (discovered k dpidr1 baseptr0 baseptr1 s)))))"
proof -
  from assms have run: "adiv6_dp_read_base_address k dev
      (debug (Info_dpidr1 dpidr1 (ucast (dpidr1 AND ADIV6_DP_DPIDR1_ASIZE_MASK k)))
         (snd (adiv5_dp_read dev (ADIV6_DP_DPIDR1 k)
            (adiv5_dp_write (ADIV5_DP_SELECT k) (ADIV5_DP_BANK1 k)
               (s\<lparr>dp := (dp s)\<lparr>ap_read := Fn_adiv6_ap_reg_read,
                                 ap_write := Fn_adiv6_ap_reg_write\<rparr>\<rparr>)))
          \<lparr>dp := (dp s)\<lparr>ap_read := Fn_adiv6_ap_reg_read, ap_write := Fn_adiv6_ap_reg_write,
                         address_width := ucast (dpidr1 AND ADIV6_DP_DPIDR1_ASIZE_MASK k)\<rparr>\<rparr>))
      = (combine baseptr0 baseptr1, discovered k dpidr1 baseptr0 baseptr1 s)"
    by (simp add: adiv6_dp_read_base_address_def adiv5_dp_read_def adiv5_dp_write_def
        debug_def discovery_def discovered_def Let_def)
  from assms have d: "dev (bus s @ [Write (ADIV5_DP_SELECT k) (ADIV5_DP_BANK1 k)])
      (ADIV6_DP_DPIDR1 k) = dpidr1"
    by (simp add: discovery_def)
  have w: "address_width (dp (discovered k dpidr1 baseptr0 baseptr1 s)) =
      ucast (dpidr1 AND ADIV6_DP_DPIDR1_ASIZE_MASK k)"
    by (simp add: discovered_def)
  show ?thesis
    by (simp add: adiv6_dp_init_def Let_def split_def d run w combine_valid_bit split_combine
        split: sum.splits)
qed

lemma answers_discovery:
  "\<exists>dpidr1 baseptr0 baseptr1.
     dpidr1 = dev (t @ [Write (ADIV5_DP_SELECT k) (ADIV5_DP_BANK1 k)]) (ADIV6_DP_DPIDR1 k) \<and>
     answers dev t (discovery k dpidr1 baseptr0 baseptr1)"
  by (simp add: discovery_def)

lemma dp_discovered [simp]:
  "dp (discovered k dpidr1 baseptr0 baseptr1 s) =
     (dp s)\<lparr>ap_read := Fn_adiv6_ap_reg_read, ap_write := Fn_adiv6_ap_reg_write,
            address_width := ucast (dpidr1 AND ADIV6_DP_DPIDR1_ASIZE_MASK k)\<rparr>"
  by (simp add: discovered_def)

lemma dp_debug [simp]: "dp (debug m s) = dp s"
  by (simp add: debug_def)

text \<open>
  C10. Whatever the outcome, the DP handle after \<^verbatim>\<open>adiv6_dp_init\<close> is the handle before it
  with \<^verbatim>\<open>ap_read\<close>, \<^verbatim>\<open>ap_write\<close> and \<^verbatim>\<open>address_width\<close> assigned: every other field (the
  extension of the record) is unchanged. The width stored is the value read from DPIDR1
  masked with the ASIZE mask (converted to the 8-bit field), also when the function
  returns false. When the run stops at the undefined shift, this is the handle at that
  point.
\<close>

theorem adiv6_dp_init_frame:
  "dp (snd (adiv6_dp_init k dev s)) =
     (dp s)\<lparr>ap_read := Fn_adiv6_ap_reg_read, ap_write := Fn_adiv6_ap_reg_write,
            address_width := ucast
              (dev (bus s @ [Write (ADIV5_DP_SELECT k) (ADIV5_DP_BANK1 k)]) (ADIV6_DP_DPIDR1 k)
                 AND ADIV6_DP_DPIDR1_ASIZE_MASK k)\<rparr>"
proof -
  from answers_discovery [of dev "bus s" k] obtain dpidr1 baseptr0 baseptr1 where
    d: "dpidr1 = dev (bus s @ [Write (ADIV5_DP_SELECT k) (ADIV5_DP_BANK1 k)]) (ADIV6_DP_DPIDR1 k)"
    and a: "answers dev (bus s) (discovery k dpidr1 baseptr0 baseptr1)"
    by blast
  show ?thesis
    unfolding adiv6_dp_init_run [OF a] d [symmetric]
    by (simp split: sum.splits)
qed

text \<open>
  C9. The handlers are assigned in the first two statements, before anything is read or
  validated, and nothing later assigns them again. So after every run, in particular
  after every run that returns false, the handle holds the ADIv6 handlers.
\<close>

theorem adiv6_dp_init_handlers:
  "ap_read (dp (snd (adiv6_dp_init k dev s))) = Fn_adiv6_ap_reg_read \<and>
   ap_write (dp (snd (adiv6_dp_init k dev s))) = Fn_adiv6_ap_reg_write"
proof -
  from answers_discovery [of dev "bus s" k] obtain dpidr1 baseptr0 baseptr1 where
    a: "answers dev (bus s) (discovery k dpidr1 baseptr0 baseptr1)"
    by blast
  show ?thesis
    unfolding adiv6_dp_init_run [OF a]
    by (simp split: sum.splits)
qed

text \<open>
  C4. When the low half read from BASEPTR0 has the validity flag clear, \<^verbatim>\<open>adiv6_dp_init\<close>
  reports that there is no valid base address and returns false, and the bus has seen the
  six accesses of discovery and nothing after the read of BASEPTR1: no SELECT1 or SELECT
  set-up for a probe and no CIDR read.
\<close>

theorem adiv6_dp_init_validity_gate:
  assumes "answers dev (bus s) (discovery k dpidr1 baseptr0 baseptr1)"
    and "baseptr0 AND ADIV6_DP_BASEPTR0_VALID k = 0"
  shows "adiv6_dp_init k dev s =
      (Inr False, debug Info_no_valid_base (discovered k dpidr1 baseptr0 baseptr1 s))
    \<and> bus (snd (adiv6_dp_init k dev s)) = bus s @ discovery k dpidr1 baseptr0 baseptr1"
  unfolding adiv6_dp_init_run [OF assms(1)] using assms(2)
  by (simp add: debug_def discovered_def)

text \<open>Scenario B of the spec: BASEPTR0 reads \<open>0x00001000\<close>.\<close>

theorem adiv6_dp_init_validity_gate_witness:
  "answers (scripted [0x28, 0x1000, 0]) (bus fresh) (discovery example_consts 0x28 0x1000 0)
   \<and> 0x1000 AND ADIV6_DP_BASEPTR0_VALID example_consts = 0
   \<and> adiv6_dp_init example_consts (scripted [0x28, 0x1000, 0]) fresh =
     (Inr False,
      \<lparr>dp = \<lparr>ap_read = Fn_adiv6_ap_reg_read, ap_write = Fn_adiv6_ap_reg_write,
              address_width = 40\<rparr>,
       bus = [Write 8 1, Read 0 0x28, Write 8 2, Read 0 0x1000, Write 8 3, Read 0 0],
       diag_log = [Info_dpidr1 0x28 40, Info_no_valid_base]\<rparr>)
   \<and> bus (snd (adiv6_dp_init example_consts (scripted [0x28, 0x1000, 0]) fresh)) =
       [Write 8 1, Read 0 0x28, Write 8 2, Read 0 0x1000, Write 8 3, Read 0 0]"
proof -
  have a: "answers (scripted [0x28, 0x1000, 0]) (bus fresh)
      (discovery example_consts 0x28 0x1000 0)"
    by (simp add: scripted_def fresh_def discovery_def example_consts_def)
  have v: "0x1000 AND ADIV6_DP_BASEPTR0_VALID example_consts = 0"
    by (simp add: example_consts_def)
  from adiv6_dp_init_validity_gate [OF a v] a v show ?thesis
    by (simp add: debug_def discovered_def discovery_def fresh_def example_consts_def)
qed

text \<open>
  The width check where its shift is defined. Let \<open>w\<close> be the discovered
  \<^verbatim>\<open>address_width\<close>. If the combined candidate has a bit set at a position \<open>w\<close> or above,
  \<^verbatim>\<open>adiv6_dp_init\<close> returns false. If the validity flag of the low half is set and \<open>w\<close> is
  below 64, the width check decides the run: with a bit set at a position \<open>w\<close> or above
  the function reports a bad base address with both halves and returns false without
  probing; with all those bits clear it goes on to the component probe at the candidate
  masked with the base address mask, and returns what the probe returns. By
  \<open>take_bit_neq_iff\<close> the condition is the same as the candidate differing from itself
  masked to \<open>w\<close> bits.
\<close>

lemma adiv6_dp_init_width_check:
  assumes "answers dev (bus s) (discovery k dpidr1 baseptr0 baseptr1)"
    and "unat (address_width (dp (discovered k dpidr1 baseptr0 baseptr1 s))) = w"
  shows "((\<exists>n\<ge>w. bit (combine baseptr0 baseptr1) n) \<longrightarrow>
            fst (adiv6_dp_init k dev s) = Inr False)
    \<and> (baseptr0 AND ADIV6_DP_BASEPTR0_VALID k \<noteq> 0 \<and> w < 64 \<longrightarrow>
         adiv6_dp_init k dev s =
           (if \<exists>n\<ge>w. bit (combine baseptr0 baseptr1) n then
              (Inr False, debug (Info_bad_base baseptr1 baseptr0)
                 (discovered k dpidr1 baseptr0 baseptr1 s))
            else
              (Inr (fst (adiv6_component_probe k dev
                   (combine baseptr0 baseptr1 AND ADIV6_DP_BASE_ADDRESS_MASK k) 0
                   (discovered k dpidr1 baseptr0 baseptr1 s))),
               snd (adiv6_component_probe k dev
                   (combine baseptr0 baseptr1 AND ADIV6_DP_BASE_ADDRESS_MASK k) 0
                   (discovered k dpidr1 baseptr0 baseptr1 s)))))"
proof -
  let ?c = "combine baseptr0 baseptr1"
  have defined: "adiv6_dp_init k dev s =
      (if \<exists>n\<ge>w. bit ?c n then
         (Inr False, debug (Info_bad_base baseptr1 baseptr0)
            (discovered k dpidr1 baseptr0 baseptr1 s))
       else
         (Inr (fst (adiv6_component_probe k dev (?c AND ADIV6_DP_BASE_ADDRESS_MASK k) 0
              (discovered k dpidr1 baseptr0 baseptr1 s))),
          snd (adiv6_component_probe k dev (?c AND ADIV6_DP_BASE_ADDRESS_MASK k) 0
              (discovered k dpidr1 baseptr0 baseptr1 s))))"
    if valid: "baseptr0 AND ADIV6_DP_BASEPTR0_VALID k \<noteq> 0" and small: "w < 64"
  proof -
    from assms(2) small
    have m: "width_mask (ucast (dpidr1 AND ADIV6_DP_DPIDR1_ASIZE_MASK k)) = Inr (mask w)"
      using width_mask_defined [of "ucast (dpidr1 AND ADIV6_DP_DPIDR1_ASIZE_MASK k)"]
      by simp
    have "?c AND mask w = take_bit w ?c"
      by (simp add: take_bit_eq_mask)
    with valid m show ?thesis
      unfolding adiv6_dp_init_run [OF assms(1)]
      by (simp add: take_bit_neq_iff)
  qed
  have "fst (adiv6_dp_init k dev s) = Inr False" if over: "\<exists>n\<ge>w. bit ?c n"
  proof (cases "baseptr0 AND ADIV6_DP_BASEPTR0_VALID k = 0")
    case True
    then show ?thesis
      unfolding adiv6_dp_init_run [OF assms(1)] by simp
  next
    case False
    from over obtain n where "w \<le> n" and "bit ?c n" by blast
    then have "w < 64"
      using bit_imp_le_length [of ?c n] by simp
    with defined [OF False] over show ?thesis by simp
  qed
  with defined show ?thesis by blast
qed

text \<open>
  Scenario A of the spec (40-bit addressing, BASEPTR0 \<open>0x00001001\<close>, BASEPTR1 0), which goes
  on to the probe at \<open>0x1000\<close>, and a run with 32-bit addressing and bit 32 of the
  candidate set, which stops at the width check.
\<close>

lemma adiv6_dp_init_width_check_runs:
  "answers (scripted [0x28, 0x1001, 0, 0x0d, 0x10, 0x05, 0xb1]) (bus fresh)
      (discovery example_consts 0x28 0x1001 0)
   \<and> unat (address_width (dp (discovered example_consts 0x28 0x1001 0 fresh))) = 40
   \<and> 0x1001 AND ADIV6_DP_BASEPTR0_VALID example_consts \<noteq> 0
   \<and> (40 :: nat) < 64
   \<and> adiv6_dp_init example_consts (scripted [0x28, 0x1001, 0, 0x0d, 0x10, 0x05, 0xb1]) fresh =
     (Inr False,
      \<lparr>dp = \<lparr>ap_read = Fn_adiv6_ap_reg_read, ap_write = Fn_adiv6_ap_reg_write,
              address_width = 40\<rparr>,
       bus = [Write 8 1, Read 0 0x28, Write 8 2, Read 0 0x1001, Write 8 3, Read 0 0,
              Write 8 5, Write 4 0, Write 8 0x1ff0, Read 0x100 0x0d, Read 0x104 0x10,
              Read 0x108 0x05, Read 0x10c 0xb1],
       diag_log = [Info_dpidr1 0x28 40]\<rparr>)
   \<and> answers (scripted [0x20, 0x1001, 1]) (bus fresh) (discovery example_consts 0x20 0x1001 1)
   \<and> unat (address_width (dp (discovered example_consts 0x20 0x1001 1 fresh))) = 32
   \<and> bit (combine 0x1001 1) 32
   \<and> (32 :: nat) < 64
   \<and> fst (adiv6_dp_init example_consts (scripted [0x20, 0x1001, 1]) fresh) = Inr False
   \<and> adiv6_dp_init example_consts (scripted [0x20, 0x1001, 1]) fresh =
     (Inr False,
      \<lparr>dp = \<lparr>ap_read = Fn_adiv6_ap_reg_read, ap_write = Fn_adiv6_ap_reg_write,
              address_width = 32\<rparr>,
       bus = [Write 8 1, Read 0 0x20, Write 8 2, Read 0 0x1001, Write 8 3, Read 0 1],
       diag_log = [Info_dpidr1 0x20 32, Info_bad_base 1 0x1001]\<rparr>)"
proof -
  let ?dev = "scripted [0x28, 0x1001, 0, 0x0d, 0x10, 0x05, 0xb1]"
  have a: "answers ?dev (bus fresh) (discovery example_consts 0x28 0x1001 0)"
    by (simp add: scripted_def fresh_def discovery_def example_consts_def)
  have v: "0x1001 AND ADIV6_DP_BASEPTR0_VALID example_consts \<noteq> 0"
    by (simp add: example_consts_def)
  have w: "unat (address_width (dp (discovered example_consts 0x28 0x1001 0 fresh))) = 40"
    by (simp add: discovered_def example_consts_def)
  have fits: "\<not> (\<exists>n\<ge>40. bit (combine 0x1001 0) n)"
    using take_bit_neq_iff [of 40 "combine 0x1001 0"] by (simp add: combine_def)
  have probe: "adiv6_component_probe example_consts ?dev
      (combine 0x1001 0 AND ADIV6_DP_BASE_ADDRESS_MASK example_consts) 0
      (discovered example_consts 0x28 0x1001 0 fresh) =
     (False,
      \<lparr>dp = \<lparr>ap_read = Fn_adiv6_ap_reg_read, ap_write = Fn_adiv6_ap_reg_write,
              address_width = 40\<rparr>,
       bus = [Write 8 1, Read 0 0x28, Write 8 2, Read 0 0x1001, Write 8 3, Read 0 0,
              Write 8 5, Write 4 0, Write 8 0x1ff0, Read 0x100 0x0d, Read 0x104 0x10,
              Read 0x108 0x05, Read 0x10c 0xb1],
       diag_log = [Info_dpidr1 0x28 40]\<rparr>)"
    by (simp add: adiv6_component_probe_def adiv6_dp_read_id_def read_id_loop.simps
        adiv5_dp_read_def adiv5_dp_write_def debug_def combine_def split_wide_address_def
        scripted_def example_consts_def fresh_def discovery_def discovered_def Let_def)
  have one: "adiv6_dp_init example_consts ?dev fresh =
     (Inr False,
      \<lparr>dp = \<lparr>ap_read = Fn_adiv6_ap_reg_read, ap_write = Fn_adiv6_ap_reg_write,
              address_width = 40\<rparr>,
       bus = [Write 8 1, Read 0 0x28, Write 8 2, Read 0 0x1001, Write 8 3, Read 0 0,
              Write 8 5, Write 4 0, Write 8 0x1ff0, Read 0x100 0x0d, Read 0x104 0x10,
              Read 0x108 0x05, Read 0x10c 0xb1],
       diag_log = [Info_dpidr1 0x28 40]\<rparr>)"
    using adiv6_dp_init_width_check [OF a w] v fits probe by simp
  have a': "answers (scripted [0x20, 0x1001, 1]) (bus fresh)
      (discovery example_consts 0x20 0x1001 1)"
    by (simp add: scripted_def fresh_def discovery_def example_consts_def)
  have w': "unat (address_width (dp (discovered example_consts 0x20 0x1001 1 fresh))) = 32"
    by (simp add: discovered_def example_consts_def)
  have b: "bit (combine 0x1001 1) 32"
    by (simp add: combine_def bit_simps)
  then have over: "\<exists>n\<ge>32. bit (combine 0x1001 1) n"
    by blast
  have two: "fst (adiv6_dp_init example_consts (scripted [0x20, 0x1001, 1]) fresh) = Inr False"
    using adiv6_dp_init_width_check [OF a' w'] over by blast
  have three: "adiv6_dp_init example_consts (scripted [0x20, 0x1001, 1]) fresh =
     (Inr False,
      \<lparr>dp = \<lparr>ap_read = Fn_adiv6_ap_reg_read, ap_write = Fn_adiv6_ap_reg_write,
              address_width = 32\<rparr>,
       bus = [Write 8 1, Read 0 0x20, Write 8 2, Read 0 0x1001, Write 8 3, Read 0 1],
       diag_log = [Info_dpidr1 0x20 32, Info_bad_base 1 0x1001]\<rparr>)"
    using adiv6_dp_init_width_check [OF a' w'] v over
    by (simp add: debug_def discovered_def discovery_def fresh_def example_consts_def)
  from a w v one a' w' b two three show ?thesis by simp
qed

text \<open>
  From width 64 on, the shift count of line 81 is out of range: with the validity flag
  set, the run ends at the undefined shift, in the state discovery left.
\<close>

lemma adiv6_dp_init_width_undefined:
  assumes "answers dev (bus s) (discovery k dpidr1 baseptr0 baseptr1)"
    and "baseptr0 AND ADIV6_DP_BASEPTR0_VALID k \<noteq> 0"
    and "64 \<le> unat (address_width (dp (discovered k dpidr1 baseptr0 baseptr1 s)))"
  shows "adiv6_dp_init k dev s =
     (Inl Shift_count_out_of_range, discovered k dpidr1 baseptr0 baseptr1 s)"
proof -
  from assms(3)
  have "width_mask (ucast (dpidr1 AND ADIV6_DP_DPIDR1_ASIZE_MASK k)) =
      Inl Shift_count_out_of_range"
    using width_mask_undefined [of "ucast (dpidr1 AND ADIV6_DP_DPIDR1_ASIZE_MASK k)"]
    by simp
  with assms(2) show ?thesis
    unfolding adiv6_dp_init_run [OF assms(1)] by simp
qed

text \<open>
  C3. For a discovered \<^verbatim>\<open>address_width\<close> \<open>w\<close>, \<^verbatim>\<open>adiv6_dp_init\<close> is to return false when the
  candidate has a bit set at a position \<open>w\<close> or above and to proceed past the width check
  when all those bits are clear. At \<open>w = 64\<close> the code does not do the second: a target
  whose DPIDR1 reads \<open>0x40\<close>, BASEPTR0 \<open>0x00001001\<close> and BASEPTR1 0 has its validity flag
  set and a candidate equal to itself masked to 64 bits, and the run evaluates
  \<^verbatim>\<open>UINT64_C(1) << 64\<close> at line 81, which C leaves undefined, instead of going on to the
  component probe. The run below stops there, after the six accesses of discovery.
\<close>

theorem adiv6_dp_init_width_64:
  "0x1001 AND ADIV6_DP_BASEPTR0_VALID example_consts \<noteq> 0
   \<and> take_bit 64 (combine 0x1001 0) = combine 0x1001 0
   \<and> adiv6_dp_init example_consts (scripted [0x40, 0x1001, 0]) fresh =
     (Inl Shift_count_out_of_range,
      \<lparr>dp = \<lparr>ap_read = Fn_adiv6_ap_reg_read, ap_write = Fn_adiv6_ap_reg_write,
              address_width = 64\<rparr>,
       bus = [Write 8 1, Read 0 0x40, Write 8 2, Read 0 0x1001, Write 8 3, Read 0 0],
       diag_log = [Info_dpidr1 0x40 64]\<rparr>)"
  by (simp add: adiv6_dp_init_def adiv6_dp_read_base_address_def adiv5_dp_read_def
      adiv5_dp_write_def debug_def width_mask_def combine_def scripted_def example_consts_def
      fresh_def Let_def)

end
